theory Spec2Isabelle
  imports Main "HOL-Library.AList"
begin

section \<open>typeh: runtime type detection, validation and enforcement\<close>

text \<open>
  A shallow embedding of \<^verbatim>\<open>src/lib/typeh.js\<close>. The library is one closure over a
  handful of functions: \<^verbatim>\<open>isType\<close> and \<^verbatim>\<open>toType\<close> classify a value,
  \<^verbatim>\<open>typeMatches\<close> tests it against a pipe-separated type expression,
  \<^verbatim>\<open>define\<close> enforces the test, and a startup loop generates one enforcing
  constructor, one optional constructor and one predicate per catalogue label.

  The source is JavaScript, so the embedding starts with the part of the host language
  the source touches: strings, Number values and their text, and the observable
  attributes of objects. Everything the source can throw is a value of type
  \<open>error + 'a\<close>.
\<close>

subsection \<open>Strings\<close>

text \<open>
  A JavaScript string is a sequence of UTF-16 code units. The embedding reads a
  \<^typ>\<open>char\<close> as a code unit in the range 0..255 (Latin-1), where
  \<^verbatim>\<open>toLowerCase\<close> maps A..Z and the accented capitals U+00C0..U+00DE (but not the
  multiplication sign U+00D7) to the code unit 32 above, and leaves the rest alone.
\<close>

definition toLowerCase_char :: "char \<Rightarrow> char" where
  "toLowerCase_char c =
     (let n = (of_char c :: nat)
      in if (65 \<le> n \<and> n \<le> 90) \<or> (192 \<le> n \<and> n \<le> 222 \<and> n \<noteq> 215)
         then char_of (n + 32) else c)"

definition toLowerCase :: "string \<Rightarrow> string" where
  "toLowerCase s = map toLowerCase_char s"

text \<open>
  \<^verbatim>\<open>toUpperCase\<close> is the inverse direction on a..z and U+00E0..U+00FE (but not the
  division sign U+00F7). The source applies it to the first letter of a catalogue label
  only, so the three code units whose capitals lie outside Latin-1 (U+00B5, U+00DF,
  U+00FF) never reach it; the embedding leaves them alone.
\<close>

definition toUpperCase_char :: "char \<Rightarrow> char" where
  "toUpperCase_char c =
     (let n = (of_char c :: nat)
      in if (97 \<le> n \<and> n \<le> 122) \<or> (224 \<le> n \<and> n \<le> 254 \<and> n \<noteq> 247)
         then char_of (n - 32) else c)"

definition toUpperCase :: "string \<Rightarrow> string" where
  "toUpperCase s = map toUpperCase_char s"

text \<open>
  \<^verbatim>\<open>s.slice(start, end)\<close>: a negative index counts from the end of the string, both
  indices are clamped to the string, and an empty range gives the empty string.
  \<^verbatim>\<open>s.slice(start)\<close> runs to the end of the string.
\<close>

definition slice :: "string \<Rightarrow> int \<Rightarrow> int \<Rightarrow> string" where
  "slice s start stop =
     (let len = int (length s);
          lo = (if start < 0 then max (len + start) 0 else min start len);
          hi = (if stop < 0 then max (len + stop) 0 else min stop len)
      in take (nat (hi - lo)) (drop (nat lo) s))"

definition slice_from :: "string \<Rightarrow> int \<Rightarrow> string" where
  "slice_from s start = slice s start (int (length s))"

text \<open>
  \<^verbatim>\<open>s.split(sep)\<close> for a separator of one code unit: the pieces between the
  separators, in order; the empty string splits into one empty piece.
\<close>

fun split_js :: "char \<Rightarrow> string \<Rightarrow> string list" where
  "split_js sep [] = [[]]"
| "split_js sep (c # cs) =
     (if c = sep then [] # split_js sep cs
      else (case split_js sep cs of
              [] \<Rightarrow> [[c]]
            | piece # pieces \<Rightarrow> (c # piece) # pieces))"

text \<open>The decimal digits of a natural number, most significant first.\<close>

fun digits :: "nat \<Rightarrow> string" where
  "digits n =
     (if n < 10 then [char_of (48 + n)]
      else digits (n div 10) @ [char_of (48 + n mod 10)])"

declare digits.simps [simp del]

definition is_digit :: "char \<Rightarrow> bool" where
  "is_digit c = (48 \<le> (of_char c :: nat) \<and> (of_char c :: nat) \<le> 57)"

subsection \<open>Number values\<close>

text \<open>
  A Number is NaN, one of the two infinities, or finite. A finite Number is kept as the
  decimal that the host prints for it: \<open>Finite neg s e\<close> is the number
  \<open>s * 10 ^ e\<close>, negated when \<open>neg\<close> holds. The literal \<^verbatim>\<open>12.0\<close> is
  \<open>Finite False 120 (-1)\<close> or \<open>Finite False 12 0\<close>, \<^verbatim>\<open>12.5\<close> is
  \<open>Finite False 125 (-1)\<close>, and both zeros have \<open>s = 0\<close>. Rounding to binary64 is
  outside the embedding: the source never computes with a finite Number, it only asks
  whether it is finite, whether it is an integer, and how it prints.
\<close>

datatype jsnum = NaN | PosInf | NegInf | Finite bool nat int

fun Number_isFinite :: "jsnum \<Rightarrow> bool" where
  "Number_isFinite (Finite neg s e) = True"
| "Number_isFinite x = False"

fun Number_isNaN :: "jsnum \<Rightarrow> bool" where
  "Number_isNaN NaN = True"
| "Number_isNaN x = False"

text \<open>A finite Number is an integer when its decimal has no digit after the point.\<close>

fun Number_isIntegral :: "jsnum \<Rightarrow> bool" where
  "Number_isIntegral (Finite neg s e) = (0 \<le> e \<or> s mod 10 ^ nat (- e) = 0)"
| "Number_isIntegral x = False"

text \<open>
  \<^verbatim>\<open>Number::toString\<close> of ECMA-262, radix 10. For a finite non-zero Number the
  standard takes the digits \<open>sig\<close> of the shortest decimal, their count \<open>k\<close>, and
  the exponent \<open>n\<close> with value \<open>0.sig * 10 ^ n\<close>; it prints positional notation
  for \<open>-5 \<le> n \<le> 21\<close> and exponent notation outside.
\<close>

definition trailing_zeros :: "string \<Rightarrow> nat" where
  "trailing_zeros ds = length (takeWhile (\<lambda>c. c = CHR ''0'') (rev ds))"

definition significand :: "nat \<Rightarrow> string" where
  "significand s = (let ds = digits s in take (length ds - trailing_zeros ds) ds)"

definition positive_toString :: "nat \<Rightarrow> int \<Rightarrow> string" where
  "positive_toString s e =
     (let sig = significand s;
          k = int (length sig);
          n = int (length (digits s)) + e
      in if - 5 \<le> n \<and> n \<le> 21 then
           (if k \<le> n then sig @ replicate (nat (n - k)) CHR ''0''
            else if 0 < n then take (nat n) sig @ ''.'' @ drop (nat n) sig
            else ''0.'' @ replicate (nat (- n)) CHR ''0'' @ sig)
         else
           (let exponentSign = (if n < 0 then ''-'' else ''+'');
                exponent = digits (nat \<bar>n - 1\<bar>)
            in if k = 1 then sig @ ''e'' @ exponentSign @ exponent
               else take 1 sig @ ''.'' @ drop 1 sig @ ''e'' @ exponentSign @ exponent))"

fun Number_toString :: "jsnum \<Rightarrow> string" where
  "Number_toString NaN = ''NaN''"
| "Number_toString PosInf = ''Infinity''"
| "Number_toString NegInf = ''-Infinity''"
| "Number_toString (Finite neg s e) =
     (if s = 0 then ''0''
      else (if neg then ''-'' else '''') @ positive_toString s e)"

text \<open>
  Subtraction of Numbers, as far as the source observes it: NaN is contagious, an
  infinity minus itself is NaN, and the difference of two finite Numbers is finite.
\<close>

definition signed :: "bool \<Rightarrow> nat \<Rightarrow> int" where
  "signed neg s = (if neg then - int s else int s)"

fun Number_subtract :: "jsnum \<Rightarrow> jsnum \<Rightarrow> jsnum" where
  "Number_subtract NaN y = NaN"
| "Number_subtract x NaN = NaN"
| "Number_subtract PosInf PosInf = NaN"
| "Number_subtract NegInf NegInf = NaN"
| "Number_subtract PosInf y = PosInf"
| "Number_subtract NegInf y = NegInf"
| "Number_subtract (Finite neg s e) PosInf = NegInf"
| "Number_subtract (Finite neg s e) NegInf = PosInf"
| "Number_subtract (Finite neg1 s1 e1) (Finite neg2 s2 e2) =
     (let e = min e1 e2;
          d = signed neg1 s1 * 10 ^ nat (e1 - e) - signed neg2 s2 * 10 ^ nat (e2 - e)
      in Finite (d < 0) (nat \<bar>d\<bar>) e)"

subsection \<open>Values\<close>

text \<open>
  An object is what the source can observe of it: whether \<^verbatim>\<open>typeof\<close> says
  \<^verbatim>\<open>"function"\<close>, what \<^verbatim>\<open>(construct = obj.constructor) && construct.name\<close>
  evaluates to, the class tag that \<^verbatim>\<open>Object.prototype.toString\<close> prints between
  \<^verbatim>\<open>"[object "\<close> and \<^verbatim>\<open>"]"\<close>, whether \<^verbatim>\<open>obj.nodeType === 1\<close>, whether it is
  an instance of the host's \<^verbatim>\<open>HTMLElement\<close>, whether \<^verbatim>\<open>obj[Symbol.iterator]\<close> is a
  function, and what \<^verbatim>\<open>ToNumber\<close> and \<^verbatim>\<open>ToString\<close> make of it. The field
  \<open>ref\<close> is the object's identity.

  The name of a constructor need not be a string: a class with a static member called
  \<^verbatim>\<open>name\<close> has a function there, and \<^verbatim>\<open>{constructor: {name: 5}}\<close> a number.
  \<open>Name s\<close> is a string (the empty string stands for every falsy result: no
  constructor, no name, an empty name); \<open>NotAString\<close> is a truthy value that is not a
  string, on which the source's call of \<^verbatim>\<open>toLowerCase\<close> throws a TypeError.

  The conversion of an object to a Number or to a string can fail (an object without a
  primitive value, as \<^verbatim>\<open>Object.create(null)\<close> is): \<open>None\<close> is the TypeError of
  the host. The object's own code is taken not to throw: no throwing getter, no proxy,
  no \<^verbatim>\<open>valueOf\<close> or \<^verbatim>\<open>toString\<close> that raises an exception of its own.
\<close>

datatype name = Name string | NotAString

record jsobj =
  ref :: nat
  callable :: bool
  ctor_name :: name
  class_tag :: string
  nodeType_is_1 :: bool
  is_HTMLElement :: bool
  has_iterator :: bool
  number_value :: "jsnum option"
  string_value :: "string option"

datatype jsval =
    VUndefined
  | VNull
  | VBool bool
  | VNum jsnum
  | VStr string
  | VSymbol string
  | VBigInt int
  | VObj jsobj

datatype error = Error string | TypeError | ReferenceError

text \<open>
  The host: whether the global \<^verbatim>\<open>HTMLElement\<close> exists (it does in a browser and
  does not in Node.js), and the two conversions of a string to a Number that the
  embedding leaves to the host: \<^verbatim>\<open>ToNumber\<close> on a string, and the value of the
  longest prefix of a string that is a decimal literal (NaN when there is none).
\<close>

record host =
  HTMLElement_defined :: bool
  StringToNumber :: "string \<Rightarrow> jsnum"
  StrDecimalValue :: "string \<Rightarrow> jsnum"

text \<open>\<^verbatim>\<open>obj == null\<close>.\<close>

fun nullish :: "jsval \<Rightarrow> bool" where
  "nullish VUndefined = True"
| "nullish VNull = True"
| "nullish obj = False"

fun typeof :: "jsval \<Rightarrow> string" where
  "typeof VUndefined = ''undefined''"
| "typeof VNull = ''object''"
| "typeof (VBool b) = ''boolean''"
| "typeof (VNum x) = ''number''"
| "typeof (VStr s) = ''string''"
| "typeof (VSymbol d) = ''symbol''"
| "typeof (VBigInt n) = ''bigint''"
| "typeof (VObj ob) = (if callable ob then ''function'' else ''object'')"

fun truthy :: "jsval \<Rightarrow> bool" where
  "truthy VUndefined = False"
| "truthy VNull = False"
| "truthy (VBool b) = b"
| "truthy (VNum NaN) = False"
| "truthy (VNum (Finite neg s e)) = (s \<noteq> 0)"
| "truthy (VNum x) = True"
| "truthy (VStr s) = (s \<noteq> [])"
| "truthy (VSymbol d) = True"
| "truthy (VBigInt n) = (n \<noteq> 0)"
| "truthy (VObj ob) = True"

fun ToString :: "jsval \<Rightarrow> error + string" where
  "ToString VUndefined = Inr ''undefined''"
| "ToString VNull = Inr ''null''"
| "ToString (VBool b) = Inr (if b then ''true'' else ''false'')"
| "ToString (VNum x) = Inr (Number_toString x)"
| "ToString (VStr s) = Inr s"
| "ToString (VSymbol d) = Inl TypeError"
| "ToString (VBigInt n) = Inr ((if n < 0 then ''-'' else '''') @ digits (nat \<bar>n\<bar>))"
| "ToString (VObj ob) = (case string_value ob of None \<Rightarrow> Inl TypeError | Some s \<Rightarrow> Inr s)"

fun ToNumber :: "host \<Rightarrow> jsval \<Rightarrow> error + jsnum" where
  "ToNumber h VUndefined = Inr NaN"
| "ToNumber h VNull = Inr (Finite False 0 0)"
| "ToNumber h (VBool b) = Inr (Finite False (if b then 1 else 0) 0)"
| "ToNumber h (VNum x) = Inr x"
| "ToNumber h (VStr s) = Inr (StringToNumber h s)"
| "ToNumber h (VSymbol d) = Inl TypeError"
| "ToNumber h (VBigInt n) = Inl TypeError"
| "ToNumber h (VObj ob) = (case number_value ob of None \<Rightarrow> Inl TypeError | Some x \<Rightarrow> Inr x)"

text \<open>\<^verbatim>\<open>obj + ""\<close>.\<close>

definition add_empty :: "jsval \<Rightarrow> error + string" where
  "add_empty obj = ToString obj"

text \<open>The global \<^verbatim>\<open>isFinite(obj)\<close> converts to a Number first.\<close>

definition isFinite :: "host \<Rightarrow> jsval \<Rightarrow> error + bool" where
  "isFinite h obj =
     (case ToNumber h obj of Inl e \<Rightarrow> Inl e | Inr x \<Rightarrow> Inr (Number_isFinite x))"

text \<open>\<^verbatim>\<open>Number.isInteger(obj)\<close> converts nothing: only a Number can be an integer.\<close>

fun Number_isInteger :: "jsval \<Rightarrow> bool" where
  "Number_isInteger (VNum x) = Number_isIntegral x"
| "Number_isInteger obj = False"

text \<open>
  \<^verbatim>\<open>Object.prototype.toString.call(obj)\<close> and
  \<^verbatim>\<open>(construct = obj.constructor) && construct.name\<close>; reading a property of
  \<^verbatim>\<open>null\<close> or \<^verbatim>\<open>undefined\<close> throws.
\<close>

fun builtin_tag :: "jsval \<Rightarrow> string" where
  "builtin_tag VUndefined = ''Undefined''"
| "builtin_tag VNull = ''Null''"
| "builtin_tag (VBool b) = ''Boolean''"
| "builtin_tag (VNum x) = ''Number''"
| "builtin_tag (VStr s) = ''String''"
| "builtin_tag (VSymbol d) = ''Symbol''"
| "builtin_tag (VBigInt n) = ''BigInt''"
| "builtin_tag (VObj ob) = class_tag ob"

definition Object_toString :: "jsval \<Rightarrow> string" where
  "Object_toString obj = ''[object '' @ builtin_tag obj @ '']''"

fun constructor_name :: "jsval \<Rightarrow> error + name" where
  "constructor_name VUndefined = Inl TypeError"
| "constructor_name VNull = Inl TypeError"
| "constructor_name (VBool b) = Inr (Name ''Boolean'')"
| "constructor_name (VNum x) = Inr (Name ''Number'')"
| "constructor_name (VStr s) = Inr (Name ''String'')"
| "constructor_name (VSymbol d) = Inr (Name ''Symbol'')"
| "constructor_name (VBigInt n) = Inr (Name ''BigInt'')"
| "constructor_name (VObj ob) = Inr (ctor_name ob)"

text \<open>\<^verbatim>\<open>obj.nodeType === 1\<close>; a primitive has no \<^verbatim>\<open>nodeType\<close>.\<close>

fun nodeType_1 :: "jsval \<Rightarrow> bool" where
  "nodeType_1 (VObj ob) = nodeType_is_1 ob"
| "nodeType_1 obj = False"

text \<open>
  \<^verbatim>\<open>obj instanceof HTMLElement\<close>: a ReferenceError where the host has no
  \<^verbatim>\<open>HTMLElement\<close>.
\<close>

fun instanceof_HTMLElement :: "host \<Rightarrow> jsval \<Rightarrow> error + bool" where
  "instanceof_HTMLElement h (VObj ob) =
     (if HTMLElement_defined h then Inr (is_HTMLElement ob) else Inl ReferenceError)"
| "instanceof_HTMLElement h obj =
     (if HTMLElement_defined h then Inr False else Inl ReferenceError)"

text \<open>
  \<^verbatim>\<open>typeof obj[Symbol.iterator] === "function"\<close>, for a value that is not nullish:
  among the primitives only strings are iterable.
\<close>

fun Symbol_iterator_is_function :: "jsval \<Rightarrow> bool" where
  "Symbol_iterator_is_function (VStr s) = True"
| "Symbol_iterator_is_function (VObj ob) = has_iterator ob"
| "Symbol_iterator_is_function obj = False"

subsection \<open>The classifier\<close>

text \<open>
  \<^verbatim>\<open>Each(array, callback)\<close> calls the callback on every element in order; the
  callbacks of the source assign to a table, which the embedding threads through.
\<close>

fun Each :: "'a list \<Rightarrow> ('a \<Rightarrow> 's \<Rightarrow> 's) \<Rightarrow> 's \<Rightarrow> 's" where
  "Each [] callback table = table"
| "Each (x # xs) callback table = Each xs callback (callback x table)"

definition class2type :: "(string \<times> string) list" where
  "class2type =
     Each (split_js CHR '' '' ''Boolean Number String Function Array Date RegExp Object Error Symbol'')
       (\<lambda>name table. AList.update (''['' @ ''object '' @ name @ '']'') (toLowerCase name) table)
       []"

definition types :: "string list" where
  "types = split_js CHR ''|'' ''int|float|string|bool|array|object|callable|iterable|mixed|null|false|true''"

definition isType :: "jsval \<Rightarrow> error + string" where
  "isType obj =
     (if nullish obj then add_empty obj
      else Inr (if typeof obj = ''object'' \<or> typeof obj = ''function''
                then (case map_of class2type (Object_toString obj) of
                        Some name \<Rightarrow> name
                      | None \<Rightarrow> ''object'')
                else typeof obj))"

text \<open>
  The regular expression \<^verbatim>\<open>/^-?\d*\.\d+$/\<close>: an optional minus, digits, a dot, and
  one digit or more up to the end. \<^verbatim>\<open>rfloat.test(obj)\<close> converts to a string first.
\<close>

definition rfloat_unsigned :: "string \<Rightarrow> bool" where
  "rfloat_unsigned u =
     (let rest = dropWhile is_digit u
      in take 1 rest = ''.'' \<and> drop 1 rest \<noteq> [] \<and> list_all is_digit (drop 1 rest))"

definition rfloat :: "string \<Rightarrow> bool" where
  "rfloat s = rfloat_unsigned (if take 1 s = ''-'' then drop 1 s else s)"

definition rfloat_test :: "jsval \<Rightarrow> error + bool" where
  "rfloat_test obj = (case ToString obj of Inl e \<Rightarrow> Inl e | Inr s \<Rightarrow> Inr (rfloat s))"

text \<open>
  The source's conditions short-circuit, and an operand may throw. \<open>and_also a b\<close>
  is \<^verbatim>\<open>a && b\<close> and \<open>or_else a b\<close> is \<^verbatim>\<open>a || b\<close> on conditions that
  may throw: the second operand counts only where JavaScript evaluates it.
\<close>

definition and_also :: "error + bool \<Rightarrow> error + bool \<Rightarrow> error + bool" where
  "and_also a b = (case a of Inl e \<Rightarrow> Inl e | Inr False \<Rightarrow> Inr False | Inr True \<Rightarrow> b)"

definition or_else :: "error + bool \<Rightarrow> error + bool \<Rightarrow> error + bool" where
  "or_else a b = (case a of Inl e \<Rightarrow> Inl e | Inr True \<Rightarrow> Inr True | Inr False \<Rightarrow> b)"

definition equals :: "string \<Rightarrow> error + string \<Rightarrow> error + bool" where
  "equals s r = (case r of Inl e \<Rightarrow> Inl e | Inr t \<Rightarrow> Inr (s = t))"

text \<open>
  The name \<^verbatim>\<open>toType\<close> starts from: the constructor's name, or else (where that is
  falsy) the class tag, in lower case. \<^verbatim>\<open>toLowerCase\<close> is a method of strings only.
\<close>

definition constructor_derived_name :: "jsval \<Rightarrow> error + string" where
  "constructor_derived_name obj =
     (case constructor_name obj of
        Inl e \<Rightarrow> Inl e
      | Inr NotAString \<Rightarrow> Inl TypeError
      | Inr (Name construct_name) \<Rightarrow>
          Inr (toLowerCase
                 (if construct_name \<noteq> [] then construct_name
                  else slice (Object_toString obj) 8 (- 1))))"

definition toType :: "host \<Rightarrow> jsval \<Rightarrow> error + string" where
  "toType h obj =
     (if nullish obj then add_empty obj
      else
        (case constructor_derived_name obj of
           Inl e \<Rightarrow> Inl e
         | Inr derived \<Rightarrow>
             (let type = (if derived = ''number'' then ''int'' else derived)
              in (case and_also (Inr (type = ''int''))
                         (and_also (isFinite h obj)
                            (or_else (rfloat_test obj) (Inr (\<not> Number_isInteger obj)))) of
                    Inl e \<Rightarrow> Inl e
                  | Inr True \<Rightarrow> Inr ''float''
                  | Inr False \<Rightarrow> Inr type))))"

subsection \<open>The matcher\<close>

text \<open>
  One pass of the loop body of \<^verbatim>\<open>typeMatches\<close> over a candidate label: it throws,
  or it sets \<^verbatim>\<open>matched\<close> and breaks, or it falls through to the next label.
\<close>

datatype outcome = Throw error | Break bool | Continue

definition candidate :: "host \<Rightarrow> jsval \<Rightarrow> string \<Rightarrow> string \<Rightarrow> outcome" where
  "candidate h obj ofType label =
     (let type = toLowerCase label
      in (case and_also (Inr (truthy obj \<and> nodeType_1 obj \<and> type = ''htmlelement''))
                 (instanceof_HTMLElement h obj) of
            Inl e \<Rightarrow> Throw e
          | Inr True \<Rightarrow> Break True
          | Inr False \<Rightarrow>
              (if type = ''callable'' \<and> ofType = ''function'' then Break True
               else if type = ''iterable'' then
                 Break (\<not> nullish obj \<and> Symbol_iterator_is_function obj)
               else
                 (case or_else
                         (and_also (Inr (typeof obj = ''boolean'')) (equals type (add_empty obj)))
                         (Inr (type = slice ofType 0 4)) of
                    Inl e \<Rightarrow> Throw e
                  | Inr True \<Rightarrow> Break True
                  | Inr False \<Rightarrow>
                      (case or_else (or_else (Inr (type = ofType)) (equals type (isType obj)))
                              (Inr (type = ''mixed'')) of
                         Inl e \<Rightarrow> Throw e
                       | Inr True \<Rightarrow> Break True
                       | Inr False \<Rightarrow> Continue)))))"

fun for_types :: "host \<Rightarrow> jsval \<Rightarrow> string \<Rightarrow> bool \<Rightarrow> string list \<Rightarrow> error + bool" where
  "for_types h obj ofType matched [] = Inr matched"
| "for_types h obj ofType matched (label # rest) =
     (case candidate h obj ofType label of
        Throw e \<Rightarrow> Inl e
      | Break m \<Rightarrow> Inr m
      | Continue \<Rightarrow> for_types h obj ofType matched rest)"

text \<open>The labels of a type expression: the expression without its leading \<^verbatim>\<open>?\<close>, split at the pipes.\<close>

definition optinal :: "string \<Rightarrow> bool" where
  "optinal type = (slice type 0 1 = ''?'')"

definition labels :: "string \<Rightarrow> string list" where
  "labels type = split_js CHR ''|'' (if optinal type then slice_from type 1 else type)"

definition typeMatches :: "host \<Rightarrow> string \<Rightarrow> jsval \<Rightarrow> error + bool" where
  "typeMatches h type obj =
     (let matched = (optinal type \<and> nullish obj);
          types = labels type
      in case toType h obj of
           Inl e \<Rightarrow> Inl e
         | Inr ofType \<Rightarrow> for_types h obj ofType matched types)"

subsection \<open>Enforcement\<close>

definition mismatch :: "string \<Rightarrow> string \<Rightarrow> string" where
  "mismatch type given = ''The value must be of type ['' @ type @ ''], ['' @ given @ ''] given.''"

definition typeh_define :: "host \<Rightarrow> string \<Rightarrow> jsval \<Rightarrow> error + jsval" where
  "typeh_define h type obj =
     (case typeMatches h type obj of
        Inl e \<Rightarrow> Inl e
      | Inr True \<Rightarrow> Inr obj
      | Inr False \<Rightarrow>
          (case toType h obj of
             Inl e \<Rightarrow> Inl e
           | Inr given \<Rightarrow> Inl (Error (mismatch type given))))"

subsection \<open>The generated members\<close>

text \<open>
  The members of the \<^verbatim>\<open>typeh\<close> object are functions of three kinds. The startup loop
  assigns, for every catalogue label, the optional constructor, the enforcing
  constructor and (but for \<^verbatim>\<open>mixed\<close>) the predicate; after the loop the source
  assigns \<^verbatim>\<open>toType\<close> and \<^verbatim>\<open>isType\<close>. The table \<open>typeh0\<close> holds whatever was
  assigned before the loop. (\<^verbatim>\<open>type[0]\<close> is the first code unit of a label; every
  catalogue label has one.)
\<close>

datatype member =
    Constructor "jsval \<Rightarrow> error + jsval"
  | Predicate "jsval \<Rightarrow> error + bool"
  | Classifier "jsval \<Rightarrow> error + string"

definition predicate_name :: "string \<Rightarrow> string" where
  "predicate_name type = ''is'' @ toUpperCase (take 1 type) @ slice_from type 1"

definition generate :: "host \<Rightarrow> string \<Rightarrow> (string \<times> member) list \<Rightarrow> (string \<times> member) list" where
  "generate h type typeh =
     (let typeh = AList.update (''_'' @ type) (Constructor (\<lambda>obj. typeh_define h (''?'' @ type) obj)) typeh;
          typeh = AList.update type (Constructor (\<lambda>obj. typeh_define h type obj)) typeh
      in if type \<noteq> ''mixed'' then
           AList.update (predicate_name type) (Predicate (\<lambda>obj. typeMatches h type obj)) typeh
         else typeh)"

definition typeh_members :: "host \<Rightarrow> (string \<times> member) list \<Rightarrow> (string \<times> member) list" where
  "typeh_members h typeh0 =
     (let typeh = Each types (generate h) typeh0;
          typeh = AList.update ''toType'' (Classifier (toType h)) typeh;
          typeh = AList.update ''isType'' (Classifier isType) typeh
      in typeh)"

subsection \<open>isNumeric\<close>

text \<open>
  \<^verbatim>\<open>typeh.isNumeric\<close> calls the globals \<^verbatim>\<open>isInt\<close> and \<^verbatim>\<open>isString\<close>, which
  \<^verbatim>\<open>Object.assign(global, typeh)\<close> binds to the generated predicates of the labels
  \<^verbatim>\<open>int\<close> and \<^verbatim>\<open>string\<close>.
\<close>

definition isInt :: "host \<Rightarrow> jsval \<Rightarrow> error + bool" where
  "isInt h obj = typeMatches h ''int'' obj"

definition isString :: "host \<Rightarrow> jsval \<Rightarrow> error + bool" where
  "isString h obj = typeMatches h ''string'' obj"

text \<open>
  \<^verbatim>\<open>parseFloat(obj)\<close> converts to a string, skips leading white space, and reads the
  longest prefix that is a decimal literal: \<^verbatim>\<open>Infinity\<close> with an optional sign, or
  digits, whose value is the host's.
\<close>

definition is_white_space :: "char \<Rightarrow> bool" where
  "is_white_space c = ((of_char c :: nat) \<in> {9, 10, 11, 12, 13, 32, 160})"

definition parseFloat_String :: "host \<Rightarrow> string \<Rightarrow> jsnum" where
  "parseFloat_String h s =
     (let trimmed = dropWhile is_white_space s
      in if take 8 trimmed = ''Infinity'' \<or> take 9 trimmed = ''+Infinity'' then PosInf
         else if take 9 trimmed = ''-Infinity'' then NegInf
         else StrDecimalValue h trimmed)"

definition parseFloat :: "host \<Rightarrow> jsval \<Rightarrow> error + jsnum" where
  "parseFloat h obj =
     (case ToString obj of Inl e \<Rightarrow> Inl e | Inr s \<Rightarrow> Inr (parseFloat_String h s))"

text \<open>\<^verbatim>\<open>obj - parseFloat(obj)\<close>: the call comes first, then the conversion of \<^verbatim>\<open>obj\<close>.\<close>

definition minus_parseFloat :: "host \<Rightarrow> jsval \<Rightarrow> error + jsnum" where
  "minus_parseFloat h obj =
     (case parseFloat h obj of
        Inl e \<Rightarrow> Inl e
      | Inr y \<Rightarrow> (case ToNumber h obj of Inl e \<Rightarrow> Inl e | Inr x \<Rightarrow> Inr (Number_subtract x y)))"

definition isNumeric :: "host \<Rightarrow> jsval \<Rightarrow> error + bool" where
  "isNumeric h obj =
     and_also (or_else (isInt h obj) (isString h obj))
       (case minus_parseFloat h obj of
          Inl e \<Rightarrow> Inl e
        | Inr d \<Rightarrow> Inr (\<not> Number_isNaN d))"

subsection \<open>A host for the examples\<close>

text \<open>
  The examples need one host to run in. This one has no global \<^verbatim>\<open>HTMLElement\<close>, as
  Node.js has none. Its two string conversions are stand-ins, not those of a real host:
  they read a string of decimal digits and answer NaN to every other string. No example
  converts a string to a Number, and every general theorem below holds for all hosts.
\<close>

definition digits_value :: "string \<Rightarrow> jsnum" where
  "digits_value s =
     (if s \<noteq> [] \<and> list_all is_digit s
      then Finite False (foldl (\<lambda>n c. 10 * n + (of_char c - 48)) 0 s) 0
      else NaN)"

definition example_host :: host where
  "example_host =
     \<lparr>HTMLElement_defined = False, StringToNumber = digits_value, StrDecimalValue = digits_value\<rparr>"


definition a_Foo :: jsval where
  "a_Foo =
     VObj \<lparr>ref = 1, callable = False, ctor_name = NotAString, class_tag = ''Object'',
           nodeType_is_1 = False, is_HTMLElement = False, has_iterator = False,
           number_value = Some NaN, string_value = Some ''[object Object]''\<rparr>"

definition a_node :: jsval where
  "a_node =
     VObj \<lparr>ref = 2, callable = False, ctor_name = Name ''Object'', class_tag = ''Object'',
           nodeType_is_1 = True, is_HTMLElement = False, has_iterator = False,
           number_value = Some NaN, string_value = Some ''[object Object]''\<rparr>"

section \<open>Properties\<close>

subsection \<open>Strings\<close>

lemma toLowerCase_char_pipe: "toLowerCase_char c = CHR ''|'' \<longleftrightarrow> c = CHR ''|''"
  by (auto simp add: toLowerCase_char_def Let_def char_of_eq_iff take_bit_eq_mod)

lemma toLowerCase_char_question: "toLowerCase_char c = CHR ''?'' \<longleftrightarrow> c = CHR ''?''"
  by (auto simp add: toLowerCase_char_def Let_def char_of_eq_iff take_bit_eq_mod)

lemma slice_0_1: "slice s 0 1 = take 1 s"
  by (auto simp add: slice_def Let_def min_def)

lemma slice_0_4: "slice s 0 4 = take 4 s"
  by (auto simp add: slice_def Let_def min_def)

lemma slice_from_1: "slice_from s 1 = drop 1 s"
  by (cases s) (auto simp add: slice_from_def slice_def Let_def min_def)

lemma toLowerCase_Number: "toLowerCase ''Number'' = ''number''"
  by code_simp

subsection \<open>The text of an integer\<close>

text \<open>An integer prints without a fractional part: digits only, or exponent notation.\<close>

lemma is_digit_char_of: "(n::nat) < 10 \<Longrightarrow> is_digit (char_of (48 + n))"
  by (simp add: is_digit_def take_bit_eq_mod)

lemma char_of_48: "char_of (48::nat) = CHR ''0''"
  by (simp add: char_of_eq_iff)

lemma digits_all_digits: "list_all is_digit (digits n)"
proof (induction n rule: digits.induct)
  case (1 n)
  show ?case
  proof (cases "n < 10")
    case True
    then show ?thesis
      by (subst digits.simps) (simp add: is_digit_char_of)
  next
    case False
    then have "list_all is_digit (digits (n div 10))"
      by (rule "1.IH")
    moreover have "is_digit (char_of (48 + n mod 10))"
      by (rule is_digit_char_of) simp
    ultimately show ?thesis
      using False by (subst digits.simps) simp
  qed
qed

lemma trailing_zeros_le: "trailing_zeros ds \<le> length ds"
  unfolding trailing_zeros_def
  by (metis length_rev length_takeWhile_le)

lemma trailing_zeros_digits:
  "0 < s \<Longrightarrow> s mod 10 ^ m = 0 \<Longrightarrow> m \<le> trailing_zeros (digits s)"
proof (induction m arbitrary: s)
  case 0
  then show ?case by simp
next
  case (Suc m)
  from Suc.prems have ten: "s mod 10 = 0"
    by (metis dvd_eq_mod_eq_0 dvd_power_le dvd_refl dvd_trans power_Suc0_right Suc_leI zero_less_Suc power_one_right)
  with Suc.prems have big: "\<not> s < 10"
    by auto
  from Suc.prems ten have "(s div 10) mod 10 ^ m = 0"
    by (metis dvd_eq_mod_eq_0 dvd_mult_div_cancel dvd_mult_cancel_left power_Suc zero_neq_numeral mod_0_imp_dvd nat_mult_dvd_cancel_disj)
  moreover from big have "0 < s div 10"
    by simp
  ultimately have "m \<le> trailing_zeros (digits (s div 10))"
    by (rule Suc.IH [rotated])
  moreover have "digits s = digits (s div 10) @ [CHR ''0'']"
    using big ten by (subst digits.simps) (simp add: char_of_48)
  ultimately show ?case
    by (simp add: trailing_zeros_def)
qed


lemma significand_length:
  assumes "0 < s" and "0 \<le> e \<or> s mod 10 ^ nat (- e) = 0"
  shows "int (length (significand s)) \<le> int (length (digits s)) + e"
proof -
  have len: "length (significand s) = length (digits s) - trailing_zeros (digits s)"
    using trailing_zeros_le [of "digits s"]
    by (simp add: significand_def Let_def)
  show ?thesis
  proof (cases "0 \<le> e")
    case True
    with len show ?thesis by simp
  next
    case False
    with assms have "nat (- e) \<le> trailing_zeros (digits s)"
      by (simp add: trailing_zeros_digits)
    with False len trailing_zeros_le [of "digits s"] show ?thesis
      by simp
  qed
qed

lemma significand_all_digits: "list_all is_digit (significand s)"
  using digits_all_digits [of s]
  by (simp add: significand_def Let_def list_all_iff) (meson in_set_takeD)

lemma not_digit: "\<not> is_digit CHR ''e''" "\<not> is_digit CHR ''.''" "\<not> is_digit CHR ''-''"
  "is_digit CHR ''0''"
  by (simp_all add: is_digit_def)

lemma dropWhile_digits:
  "list_all is_digit xs \<Longrightarrow> dropWhile is_digit (xs @ ys) = dropWhile is_digit ys"
  by (simp add: list_all_iff)

lemma rfloat_unsigned_digits: "list_all is_digit xs \<Longrightarrow> \<not> rfloat_unsigned xs"
proof -
  assume "list_all is_digit xs"
  then have "dropWhile is_digit xs = []"
    by (simp add: list_all_iff)
  then show ?thesis
    unfolding rfloat_unsigned_def Let_def by (simp del: dropWhile_eq_Nil_conv)
qed

lemma rfloat_unsigned_e:
  "list_all is_digit xs \<Longrightarrow> \<not> rfloat_unsigned (xs @ CHR ''e'' # ys)"
  by (simp add: rfloat_unsigned_def dropWhile_digits not_digit)

lemma rfloat_unsigned_dot_e:
  "list_all is_digit xs \<Longrightarrow> \<not> rfloat_unsigned (xs @ CHR ''.'' # zs @ CHR ''e'' # ys)"
  by (simp add: rfloat_unsigned_def dropWhile_digits not_digit)

lemma positive_toString_shape:
  assumes "0 < s" and "0 \<le> e \<or> s mod 10 ^ nat (- e) = 0"
  shows "(\<exists>xs. list_all is_digit xs \<and> positive_toString s e = xs) \<or>
         (\<exists>xs ys. list_all is_digit xs \<and> positive_toString s e = xs @ CHR ''e'' # ys) \<or>
         (\<exists>xs zs ys. list_all is_digit xs \<and>
            positive_toString s e = xs @ CHR ''.'' # zs @ CHR ''e'' # ys)"
proof -
  let ?sig = "significand s"
  let ?n = "int (length (digits s)) + e"
  have k: "int (length ?sig) \<le> ?n"
    using assms by (rule significand_length)
  have sig: "list_all is_digit ?sig"
    by (rule significand_all_digits)
  show ?thesis
  proof (cases "- 5 \<le> ?n \<and> ?n \<le> 21")
    case True
    with k have "positive_toString s e = ?sig @ replicate (nat (?n - int (length ?sig))) CHR ''0''"
      by (simp add: positive_toString_def Let_def)
    moreover have "list_all is_digit (?sig @ replicate (nat (?n - int (length ?sig))) CHR ''0'')"
      using sig by (auto simp add: list_all_iff not_digit)
    ultimately show ?thesis by simp
  next
    case False
    with k have big: "21 < ?n"
      by linarith
    show ?thesis
    proof (cases "int (length ?sig) = 1")
      case True
      with big have "positive_toString s e = ?sig @ CHR ''e'' # ''+'' @ digits (nat \<bar>?n - 1\<bar>)"
        by (simp add: positive_toString_def Let_def)
      with sig show ?thesis by blast
    next
      case one: False
      have "list_all is_digit (take 1 ?sig)"
        using sig by (simp add: list_all_iff) (meson in_set_takeD)
      moreover from big one have "positive_toString s e =
          take 1 ?sig @ CHR ''.'' # drop 1 ?sig @ CHR ''e'' # ''+'' @ digits (nat \<bar>?n - 1\<bar>)"
        by (simp add: positive_toString_def Let_def)
      ultimately show ?thesis by blast
    qed
  qed
qed

lemma head_not_minus:
  "list_all is_digit xs \<Longrightarrow> c \<noteq> CHR ''-'' \<Longrightarrow> take 1 (xs @ c # ys) \<noteq> ''-''"
  by (cases xs) (auto simp add: not_digit)

lemma head_digit_not_minus: "list_all is_digit xs \<Longrightarrow> take 1 xs \<noteq> ''-''"
  by (cases xs) (auto simp add: not_digit)

lemma rfloat_shapes:
  assumes "(\<exists>xs. list_all is_digit xs \<and> t = xs) \<or>
         (\<exists>xs ys. list_all is_digit xs \<and> t = xs @ CHR ''e'' # ys) \<or>
         (\<exists>xs zs ys. list_all is_digit xs \<and> t = xs @ CHR ''.'' # zs @ CHR ''e'' # ys)"
  shows "\<not> rfloat_unsigned t \<and> take 1 t \<noteq> ''-''"
proof -
  consider (digits) "list_all is_digit t"
    | (e) xs ys where "list_all is_digit xs" "t = xs @ CHR ''e'' # ys"
    | (dot) xs zs ys where "list_all is_digit xs" "t = xs @ CHR ''.'' # zs @ CHR ''e'' # ys"
    using assms by blast
  then show ?thesis
  proof cases
    case digits
    then show ?thesis
      using rfloat_unsigned_digits head_digit_not_minus by blast
  next
    case e
    then show ?thesis
      using rfloat_unsigned_e [of xs ys] head_not_minus [of xs "CHR ''e''" ys] by simp
  next
    case dot
    then show ?thesis
      using rfloat_unsigned_dot_e [of xs zs ys]
        head_not_minus [of xs "CHR ''.''" "zs @ CHR ''e'' # ys"] by simp
  qed
qed

lemma integral_text_not_rfloat: "Number_isIntegral x \<Longrightarrow> \<not> rfloat (Number_toString x)"
proof (cases x)
  case (Finite neg s e)
  assume "Number_isIntegral x"
  with Finite have int: "0 \<le> e \<or> s mod 10 ^ nat (- e) = 0"
    by simp
  show ?thesis
  proof (cases "s = 0")
    case True
    have "\<not> rfloat ''0''"
      by (simp add: rfloat_def rfloat_unsigned_def is_digit_def)
    with True Finite show ?thesis by simp
  next
    case False
    then have "0 < s" by simp
    with int have "\<not> rfloat_unsigned (positive_toString s e) \<and> take 1 (positive_toString s e) \<noteq> ''-''"
      by (intro rfloat_shapes positive_toString_shape)
    with False Finite show ?thesis
      by (simp add: rfloat_def)
  qed
qed simp_all

subsection \<open>The refined type of a Number\<close>

lemma toType_VNum:
  "toType h (VNum x) =
     Inr (if Number_isFinite x \<and> (rfloat (Number_toString x) \<or> \<not> Number_isIntegral x)
          then ''float'' else ''int'')"
  by (simp add: toType_def constructor_derived_name_def toLowerCase_Number and_also_def
      or_else_def isFinite_def rfloat_test_def split: bool.splits)

text \<open>
  Claim C1. For every Number \<open>x\<close>: \<^verbatim>\<open>toType\<close> returns \<^verbatim>\<open>"int"\<close> when \<open>x\<close> is an
  integer, whose text never has a fractional part (so \<^verbatim>\<open>12.0\<close>, which prints as
  \<^verbatim>\<open>12\<close>, is an int), and returns \<^verbatim>\<open>"float"\<close> when \<open>x\<close> is finite and its text
  matches \<^verbatim>\<open>/^-?\d*\.\d+$/\<close> or \<open>x\<close> is not an integer.
\<close>

theorem toType_number:
  "(Number_isIntegral x \<longrightarrow>
      \<not> rfloat (Number_toString x) \<and> toType h (VNum x) = Inr ''int'') \<and>
   (Number_isFinite x \<and> (rfloat (Number_toString x) \<or> \<not> Number_isIntegral x) \<longrightarrow>
      toType h (VNum x) = Inr ''float'')"
  by (simp add: toType_VNum integral_text_not_rfloat)

text \<open>The examples of the claim: \<^verbatim>\<open>12.0\<close> is an int, \<^verbatim>\<open>12.5\<close> is a float.\<close>

theorem toType_number_witness:
  "Number_isIntegral (Finite False 120 (- 1)) \<and>
   Number_toString (Finite False 120 (- 1)) = ''12'' \<and>
   toType example_host (VNum (Finite False 120 (- 1))) = Inr ''int'' \<and>
   Number_isFinite (Finite False 125 (- 1)) \<and>
   Number_toString (Finite False 125 (- 1)) = ''12.5'' \<and>
   rfloat ''12.5'' \<and>
   \<not> Number_isIntegral (Finite False 125 (- 1)) \<and>
   toType example_host (VNum (Finite False 125 (- 1))) = Inr ''float''"
proof -
  have int1: "Number_isIntegral (Finite False 120 (- 1))"
    by simp
  have int2: "Number_toString (Finite False 120 (- 1)) = ''12''"
    by code_simp
  have float1: "Number_isFinite (Finite False 125 (- 1))"
    by simp
  have float2: "Number_toString (Finite False 125 (- 1)) = ''12.5''"
    by code_simp
  have float3: "rfloat ''12.5''"
    by code_simp
  have float4: "\<not> Number_isIntegral (Finite False 125 (- 1))"
    by simp
  from toType_number [of "Finite False 120 (- 1)" example_host] int1
  have "toType example_host (VNum (Finite False 120 (- 1))) = Inr ''int''"
    by blast
  moreover from toType_number [of "Finite False 125 (- 1)" example_host] float1 float4
  have "toType example_host (VNum (Finite False 125 (- 1))) = Inr ''float''"
    by blast
  ultimately show ?thesis
    using int1 int2 float1 float2 float3 float4 by blast
qed

text \<open>
  Claim C5. \<^verbatim>\<open>toType\<close> of positive infinity, of negative infinity and of NaN is
  \<^verbatim>\<open>"int"\<close>: a Number that is not finite is never reclassified as a float.
\<close>

theorem toType_not_finite:
  "toType h (VNum PosInf) = Inr ''int'' \<and>
   toType h (VNum NegInf) = Inr ''int'' \<and>
   toType h (VNum NaN) = Inr ''int''"
  by (simp add: toType_VNum)

theorem toType_not_finite_witness:
  "toType example_host (VNum PosInf) = Inr ''int'' \<and>
   toType example_host (VNum NegInf) = Inr ''int'' \<and>
   toType example_host (VNum NaN) = Inr ''int''"
  by (rule toType_not_finite)

subsection \<open>Totality of the classifiers\<close>

lemma and_also_Inr [simp]: "and_also (Inr b) x = (if b then x else Inr False)"
  by (simp add: and_also_def)

lemma or_else_Inr [simp]: "or_else (Inr b) x = (if b then Inr True else x)"
  by (simp add: or_else_def)

lemma equals_Inr [simp]: "equals s (Inr t) = Inr (s = t)"
  by (simp add: equals_def)

lemma lower_names:
  "toLowerCase ''Boolean'' = ''boolean''"
  "toLowerCase ''String'' = ''string''"
  "toLowerCase ''Symbol'' = ''symbol''"
  "toLowerCase ''BigInt'' = ''bigint''"
  by code_simp+

lemma toType_primitive:
  "toType h VUndefined = Inr ''undefined''"
  "toType h VNull = Inr ''null''"
  "toType h (VBool b) = Inr ''boolean''"
  "toType h (VStr s) = Inr ''string''"
  "toType h (VSymbol d) = Inr ''symbol''"
  "toType h (VBigInt n) = Inr ''bigint''"
  by (simp_all add: toType_def add_empty_def constructor_derived_name_def lower_names)


lemma toType_nullish: "nullish v \<Longrightarrow> \<exists>t. toType h v = Inr t"
  by (cases v) (simp_all add: toType_primitive)

lemma toType_Inl: "toType h v = Inl e \<Longrightarrow> e = TypeError"
proof (cases v)
  case (VObj ob)
  assume "toType h v = Inl e"
  with VObj show ?thesis
    by (auto simp add: toType_def constructor_derived_name_def isFinite_def rfloat_test_def
        Let_def and_also_def or_else_def
        split: name.splits option.splits sum.splits bool.splits if_splits)
qed (simp_all add: toType_primitive toType_VNum)



lemma isType_returns: "\<exists>t. isType v = Inr t"
  by (cases v) (simp_all add: isType_def add_empty_def)

lemma add_empty_boolean: "typeof v = ''boolean'' \<Longrightarrow> \<exists>s. add_empty v = Inr s"
  by (cases v) (simp_all add: add_empty_def split: if_splits)

subsection \<open>One candidate label\<close>

lemma html_check:
  "and_also (Inr (truthy v \<and> nodeType_1 v \<and> ty = ''htmlelement'')) (instanceof_HTMLElement h v) =
     (if nodeType_1 v \<and> ty = ''htmlelement''
      then (if HTMLElement_defined h then instanceof_HTMLElement h v else Inl ReferenceError)
      else Inr False)"
  by (cases v) simp_all

lemma boolean_check:
  "or_else (and_also (Inr (typeof v = ''boolean'')) (equals ty (add_empty v))) (Inr c) =
     Inr ((typeof v = ''boolean'' \<and> add_empty v = Inr ty) \<or> c)"
proof (cases "typeof v = ''boolean''")
  case True
  then obtain s where "add_empty v = Inr s" using add_empty_boolean by blast
  with True show ?thesis by auto
next
  case False
  then show ?thesis by simp
qed

lemma mixed_check:
  "or_else (or_else (Inr a) (equals ty (isType v))) (Inr c) = Inr (a \<or> isType v = Inr ty \<or> c)"
proof -
  obtain it where "isType v = Inr it" using isType_returns by blast
  then show ?thesis by auto
qed

lemma instanceof_HTMLElement_defined:
  "HTMLElement_defined h \<Longrightarrow> \<exists>b. instanceof_HTMLElement h v = Inr b"
  by (cases v) auto

lemma outcome_chain:
  assumes "D \<Longrightarrow> \<exists>b. I = Inr b"
  shows "(case (if A then (if D then I else Inl ReferenceError) else Inr False) of
            Inl x \<Rightarrow> Throw x
          | Inr True \<Rightarrow> Break True
          | Inr False \<Rightarrow>
              (if C then Break True
               else if It then Break r
               else (case Inr P of
                       Inl x \<Rightarrow> Throw x
                     | Inr True \<Rightarrow> Break True
                     | Inr False \<Rightarrow>
                         (case Inr Q of
                            Inl x \<Rightarrow> Throw x
                          | Inr True \<Rightarrow> Break True
                          | Inr False \<Rightarrow> Continue)))) =
         (if A \<and> \<not> D then Throw ReferenceError
          else if A \<and> I = Inr True then Break True
          else if C then Break True
          else if It then Break r
          else if P \<or> Q then Break True
          else Continue)"
proof (cases D)
  case True
  then obtain b where "I = Inr b" using assms by blast
  then show ?thesis
    by (cases A; cases b; cases C; cases It; cases P; cases Q; simp add: True)
next
  case False
  then show ?thesis
    by (cases A; cases C; cases It; cases P; cases Q; simp)
qed

lemma candidate_char:
  "candidate h v t l =
     (if (nodeType_1 v \<and> toLowerCase l = ''htmlelement'') \<and> \<not> HTMLElement_defined h
        then Throw ReferenceError
      else if (nodeType_1 v \<and> toLowerCase l = ''htmlelement'') \<and> instanceof_HTMLElement h v = Inr True
        then Break True
      else if toLowerCase l = ''callable'' \<and> t = ''function'' then Break True
      else if toLowerCase l = ''iterable'' then Break (\<not> nullish v \<and> Symbol_iterator_is_function v)
      else if ((typeof v = ''boolean'' \<and> add_empty v = Inr (toLowerCase l)) \<or>
               toLowerCase l = take 4 t) \<or>
              (toLowerCase l = t \<or> isType v = Inr (toLowerCase l) \<or> toLowerCase l = ''mixed'')
        then Break True
      else Continue)"
  unfolding candidate_def Let_def html_check boolean_check mixed_check slice_0_4
  by (rule outcome_chain) (rule instanceof_HTMLElement_defined)

lemma candidate_Throw:
  "candidate h v t l = Throw e \<Longrightarrow>
     e = ReferenceError \<and> toLowerCase l = ''htmlelement'' \<and> \<not> HTMLElement_defined h \<and> nodeType_1 v"
  by (simp only: candidate_char split: if_splits) simp_all




subsection \<open>The label mixed\<close>




subsection \<open>Enforcement\<close>

text \<open>
  The matcher raises nothing but the ReferenceError of a host without
  \<^verbatim>\<open>HTMLElement\<close> and the TypeError of \<^verbatim>\<open>toType\<close>.
\<close>

lemma for_types_Inl:
  "for_types h v t m ls = Inl e \<Longrightarrow> e = ReferenceError \<and> \<not> HTMLElement_defined h"
proof (induction ls)
  case Nil
  then show ?case by simp
next
  case (Cons l ls)
  then show ?case
    by (cases "candidate h v t l") (auto dest: candidate_Throw)
qed

lemma typeMatches_Inl:
  "typeMatches h E v = Inl e \<Longrightarrow> e = ReferenceError \<or> e = TypeError"
proof (cases "toType h v")
  case (Inl e')
  assume "typeMatches h E v = Inl e"
  with Inl show ?thesis
    by (simp add: typeMatches_def toType_Inl)
next
  case (Inr t)
  assume "typeMatches h E v = Inl e"
  with Inr show ?thesis
    by (simp add: typeMatches_def for_types_Inl)
qed

lemma typeMatches_Inr: "typeMatches h E v = Inr b \<Longrightarrow> \<exists>t. toType h v = Inr t"
  by (cases "toType h v") (simp_all add: typeMatches_def)

text \<open>
  Claim C7 says that \<^verbatim>\<open>define\<close> raises an error if and only if
  \<^verbatim>\<open>typeMatches(E, v)\<close> is false. \<^verbatim>\<open>typeMatches\<close> has a third outcome: it can
  raise, and then \<^verbatim>\<open>define\<close> raises although the match is not false. In a host
  without \<^verbatim>\<open>HTMLElement\<close>, \<^verbatim>\<open>define("htmlelement", {nodeType: 1})\<close> raises a
  ReferenceError.
\<close>

theorem typeh_define_matches_counterexample:
  "typeMatches example_host ''htmlelement'' a_node = Inl ReferenceError \<and>
   typeMatches example_host ''htmlelement'' a_node \<noteq> Inr False \<and>
   typeh_define example_host ''htmlelement'' a_node = Inl ReferenceError"
  by code_simp

text \<open>
  Claim C7, amended. For every type expression \<open>E\<close> and value \<open>v\<close>: \<^verbatim>\<open>define\<close>
  returns, and then returns \<open>v\<close> itself, exactly when \<^verbatim>\<open>typeMatches(E, v)\<close> returns
  true; it raises its own error, whose message embeds \<open>E\<close> as given and
  \<^verbatim>\<open>toType(v)\<close>, exactly when \<^verbatim>\<open>typeMatches(E, v)\<close> returns false; and where
  \<^verbatim>\<open>typeMatches(E, v)\<close> itself raises (a ReferenceError or a TypeError), \<^verbatim>\<open>define\<close>
  raises that same error, not the error of a mismatch.
\<close>

theorem typeh_define_matches:
  "(typeMatches h E v = Inr True \<longrightarrow> typeh_define h E v = Inr v) \<and>
   (typeMatches h E v = Inr False \<longrightarrow>
      (\<exists>given. toType h v = Inr given \<and>
         typeh_define h E v =
           Inl (Error (''The value must be of type ['' @ E @ ''], ['' @ given @ ''] given.'')))) \<and>
   (\<forall>e. typeMatches h E v = Inl e \<longrightarrow>
      typeh_define h E v = Inl e \<and> (\<forall>msg. e \<noteq> Error msg)) \<and>
   ((\<exists>r. typeh_define h E v = Inr r) \<longleftrightarrow> typeMatches h E v = Inr True) \<and>
   ((\<exists>msg. typeh_define h E v = Inl (Error msg)) \<longleftrightarrow> typeMatches h E v = Inr False)"
proof (cases "typeMatches h E v")
  case (Inl e)
  then have "e = ReferenceError \<or> e = TypeError"
    by (rule typeMatches_Inl)
  with Inl show ?thesis
    by (auto simp add: typeh_define_def)
next
  case (Inr b)
  then obtain t where t: "toType h v = Inr t"
    using typeMatches_Inr by blast
  with Inr show ?thesis
    by (cases b) (simp_all add: typeh_define_def mismatch_def)
qed

theorem typeh_define_matches_witness:
  "typeMatches example_host ''int'' (VNum (Finite False 5 0)) = Inr True \<and>
   typeh_define example_host ''int'' (VNum (Finite False 5 0)) = Inr (VNum (Finite False 5 0)) \<and>
   typeMatches example_host ''int'' (VStr ''5'') = Inr False \<and>
   toType example_host (VStr ''5'') = Inr ''string'' \<and>
   typeh_define example_host ''int'' (VStr ''5'') =
     Inl (Error ''The value must be of type [int], [string] given.'') \<and>
   typeMatches example_host ''int'' a_Foo = Inl TypeError \<and>
   typeh_define example_host ''int'' a_Foo = Inl TypeError"
proof -
  have yes: "typeMatches example_host ''int'' (VNum (Finite False 5 0)) = Inr True"
    by code_simp
  have no: "typeMatches example_host ''int'' (VStr ''5'') = Inr False"
    by code_simp
  have given: "toType example_host (VStr ''5'') = Inr ''string''"
    by (simp add: toType_primitive)
  have raises: "typeMatches example_host ''int'' a_Foo = Inl TypeError"
    by code_simp
  from typeh_define_matches [of example_host "''int''" "VNum (Finite False 5 0)"] yes
  have "typeh_define example_host ''int'' (VNum (Finite False 5 0)) = Inr (VNum (Finite False 5 0))"
    by blast
  moreover from typeh_define_matches [of example_host "''int''" "VStr ''5''"] no given
  have "typeh_define example_host ''int'' (VStr ''5'') =
          Inl (Error ''The value must be of type [int], [string] given.'')"
    by auto
  moreover from typeh_define_matches [of example_host "''int''" a_Foo] raises
  have "typeh_define example_host ''int'' a_Foo = Inl TypeError"
    by blast
  ultimately show ?thesis
    using yes no given raises by blast
qed

subsection \<open>The nullability marker and the label iterable\<close>

lemma labels_optional_iterable: "labels ''?iterable'' = [''iterable'']"
  by (simp add: labels_def optinal_def slice_0_1 slice_from_1)

lemma lower_iterable: "toLowerCase ''iterable'' = ''iterable''"
  by code_simp

lemma candidate_iterable:
  "toLowerCase l = ''iterable'' \<Longrightarrow>
     candidate h v t l = Break (\<not> nullish v \<and> Symbol_iterator_is_function v)"
  by (simp add: candidate_char)

lemma for_types_Continue:
  "\<forall>l\<in>set pre. candidate h v t l = Continue \<Longrightarrow>
     for_types h v t m (pre @ rest) = for_types h v t m rest"
  by (induction pre) simp_all

lemma for_types_nullish:
  "nullish v \<Longrightarrow> \<forall>l\<in>set ls. toLowerCase l \<noteq> ''iterable'' \<Longrightarrow>
     for_types h v t True ls = Inr True"
proof (induction ls)
  case Nil
  then show ?case by simp
next
  case (Cons l ls)
  from Cons.prems have "\<not> nodeType_1 v"
    by (cases v) simp_all
  with Cons show ?case
    by (simp add: candidate_char)
qed

lemma typeMatches_optional_nullish:
  "optinal E \<Longrightarrow> nullish v \<Longrightarrow> \<forall>l\<in>set (labels E). toLowerCase l \<noteq> ''iterable'' \<Longrightarrow>
     typeMatches h E v = Inr True"
proof -
  assume a: "optinal E" "nullish v" "\<forall>l\<in>set (labels E). toLowerCase l \<noteq> ''iterable''"
  then obtain t where t: "toType h v = Inr t" using toType_nullish by blast
  from a show ?thesis
    by (simp add: typeMatches_def t for_types_nullish)
qed

text \<open>
  Claim C2 says that \<^verbatim>\<open>typeMatches("?" + E, v)\<close> is true for every expression \<open>E\<close>
  and nullish \<open>v\<close>, \<open>E = "iterable"\<close> included. The source sets
  \<^verbatim>\<open>matched = true\<close> for a nullish value and then still runs the loop; no branch of
  the loop takes the match back (lemma \<open>typeMatches_optional_nullish\<close>) but the branch
  of the label \<^verbatim>\<open>iterable\<close>, which assigns \<^verbatim>\<open>matched\<close> whatever it was. At
  \<open>E = "iterable"\<close> the source returns false for \<^verbatim>\<open>null\<close> and for
  \<^verbatim>\<open>undefined\<close>, and \<^verbatim>\<open>define("?iterable", null)\<close> raises, where
  \<^verbatim>\<open>typeMatches("?string", null)\<close> is true.
\<close>

theorem typeMatches_optional_iterable_nullish:
  "typeMatches h ''?iterable'' VNull = Inr False \<and>
   typeMatches h ''?iterable'' VUndefined = Inr False \<and>
   typeh_define h ''?iterable'' VNull =
     Inl (Error ''The value must be of type [?iterable], [null] given.'') \<and>
   typeMatches h ''?string'' VNull = Inr True"
proof -
  have null: "typeMatches h ''?iterable'' VNull = Inr False"
    and undefined: "typeMatches h ''?iterable'' VUndefined = Inr False"
    by (simp_all add: typeMatches_def labels_optional_iterable toType_primitive candidate_iterable
        lower_iterable)
  from null have raised: "typeh_define h ''?iterable'' VNull =
      Inl (Error ''The value must be of type [?iterable], [null] given.'')"
    by (simp add: typeh_define_def toType_primitive mismatch_def)
  have "optinal ''?string''"
    by code_simp
  moreover have "\<forall>l\<in>set (labels ''?string''). toLowerCase l \<noteq> ''iterable''"
    by code_simp
  ultimately have "typeMatches h ''?string'' VNull = Inr True"
    by (simp add: typeMatches_optional_nullish)
  with null undefined raised show ?thesis
    by simp
qed

text \<open>
  Claim C3. For a value that is not nullish, when the loop reaches a label
  \<^verbatim>\<open>iterable\<close> (every label before it fell through), the result is the outcome of
  the iterable check, whatever labels follow: they are never evaluated. So
  \<^verbatim>\<open>typeMatches("iterable|int", 5)\<close> is false although \<^verbatim>\<open>typeMatches("int", 5)\<close>
  is true.
\<close>

theorem typeMatches_iterable_terminal:
  "(\<not> nullish v \<and> toType h v = Inr t \<and> labels E = pre @ it # post \<and>
    toLowerCase it = ''iterable'' \<and> (\<forall>l\<in>set pre. candidate h v t l = Continue) \<longrightarrow>
      typeMatches h E v = Inr (Symbol_iterator_is_function v)) \<and>
   typeMatches h ''iterable|int'' (VNum (Finite False 5 0)) = Inr False \<and>
   typeMatches h ''int'' (VNum (Finite False 5 0)) = Inr True"
proof -
  have general: "typeMatches h E v = Inr (Symbol_iterator_is_function v)"
    if "\<not> nullish v" "toType h v = Inr t" "labels E = pre @ it # post"
      "toLowerCase it = ''iterable''" "\<forall>l\<in>set pre. candidate h v t l = Continue"
    using that by (simp add: typeMatches_def for_types_Continue candidate_iterable)
  have "\<not> rfloat (Number_toString (Finite False 5 0))"
    by code_simp
  then have five: "toType h (VNum (Finite False 5 0)) = Inr ''int''"
    by (simp add: toType_VNum)
  have l1: "labels ''iterable|int'' = [''iterable'', ''int'']"
    by (simp add: labels_def optinal_def slice_0_1)
  have l2: "labels ''int'' = [''int'']"
    by (simp add: labels_def optinal_def slice_0_1)
  have low: "toLowerCase ''int'' = ''int''"
    by code_simp
  have masked: "typeMatches h ''iterable|int'' (VNum (Finite False 5 0)) = Inr False"
    by (simp add: typeMatches_def five l1 candidate_iterable lower_iterable)
  have alone: "typeMatches h ''int'' (VNum (Finite False 5 0)) = Inr True"
    by (simp add: typeMatches_def five l2 candidate_char low)
  from general masked alone show ?thesis
    by blast
qed

theorem typeMatches_iterable_terminal_witness:
  "\<not> nullish (VNum (Finite False 5 0)) \<and>
   toType example_host (VNum (Finite False 5 0)) = Inr ''int'' \<and>
   labels ''string|iterable|int'' = [''string''] @ ''iterable'' # [''int''] \<and>
   toLowerCase ''iterable'' = ''iterable'' \<and>
   candidate example_host (VNum (Finite False 5 0)) ''int'' ''string'' = Continue \<and>
   typeMatches example_host ''string|iterable|int'' (VNum (Finite False 5 0)) = Inr False \<and>
   typeMatches example_host ''string|int'' (VNum (Finite False 5 0)) = Inr True"
proof -
  have a: "\<not> nullish (VNum (Finite False 5 0))"
    by simp
  have b: "toType example_host (VNum (Finite False 5 0)) = Inr ''int''"
    by code_simp
  have c: "labels ''string|iterable|int'' = [''string''] @ ''iterable'' # [''int'']"
    by code_simp
  have d: "toLowerCase ''iterable'' = ''iterable''"
    by code_simp
  have e: "candidate example_host (VNum (Finite False 5 0)) ''int'' ''string'' = Continue"
    by code_simp
  have f: "typeMatches example_host ''string|int'' (VNum (Finite False 5 0)) = Inr True"
    by code_simp
  from typeMatches_iterable_terminal
    [of "VNum (Finite False 5 0)" example_host "''int''" "''string|iterable|int''" "[''string'']"
      "''iterable''" "[''int'']"] a b c d e
  have "typeMatches example_host ''string|iterable|int'' (VNum (Finite False 5 0)) = Inr False"
    by simp
  with a b c d e f show ?thesis
    by blast
qed

subsection \<open>Case of the labels\<close>

lemma split_js_not_Nil: "split_js sep s \<noteq> []"
  by (induction s) (auto split: list.splits)

lemma split_js_map:
  "(\<And>c. f c = sep \<longleftrightarrow> c = sep) \<Longrightarrow> split_js sep (map f s) = map (map f) (split_js sep s)"
proof (induction s)
  case Nil
  then show ?case by simp
next
  case (Cons c cs)
  then show ?case
    by (cases "split_js sep cs") (simp_all add: split_js_not_Nil)
qed

lemma optinal_toLowerCase: "optinal (toLowerCase E) = optinal E"
  by (cases E) (simp_all add: optinal_def slice_0_1 toLowerCase_def toLowerCase_char_question)

lemma labels_toLowerCase: "labels (toLowerCase E) = map toLowerCase (labels E)"
proof -
  have "split_js CHR ''|'' (map toLowerCase_char s) = map (map toLowerCase_char) (split_js CHR ''|'' s)" for s
    by (rule split_js_map) (rule toLowerCase_char_pipe)
  then have split: "split_js CHR ''|'' (toLowerCase s) = map toLowerCase (split_js CHR ''|'' s)" for s
    by (simp add: toLowerCase_def [abs_def])
  have "drop 1 (toLowerCase E) = toLowerCase (drop 1 E)"
    by (simp add: toLowerCase_def drop_map)
  then show ?thesis
    by (simp add: labels_def optinal_toLowerCase slice_from_1 split)
qed

lemma candidate_cong:
  "toLowerCase l = toLowerCase l' \<Longrightarrow> candidate h v t l = candidate h v t l'"
  by (simp add: candidate_def)

lemma for_types_cong:
  "map toLowerCase ls = map toLowerCase ls' \<Longrightarrow> for_types h v t m ls = for_types h v t m ls'"
proof (induction ls arbitrary: ls')
  case Nil
  then show ?case by simp
next
  case (Cons l ls)
  then obtain l' rest where ls': "ls' = l' # rest" "toLowerCase l = toLowerCase l'"
      "map toLowerCase ls = map toLowerCase rest"
    by (cases ls') auto
  with Cons.IH [of rest] show ?case
    by (simp add: candidate_cong [of l l'] split: outcome.splits)
qed

text \<open>
  Claim C9. Matching is case-insensitive on the labels: two type expressions that differ
  only in the case of their letters (\<^verbatim>\<open>"INT|Float"\<close> and \<^verbatim>\<open>"int|float"\<close>) give the
  same result of \<^verbatim>\<open>typeMatches\<close> on every value.
\<close>

theorem typeMatches_case_insensitive:
  "toLowerCase E = toLowerCase E' \<Longrightarrow> typeMatches h E v = typeMatches h E' v"
proof -
  assume same: "toLowerCase E = toLowerCase E'"
  then have "optinal E = optinal E'"
    by (metis optinal_toLowerCase)
  moreover from same have "map toLowerCase (labels E) = map toLowerCase (labels E')"
    by (metis labels_toLowerCase)
  ultimately show ?thesis
    by (simp add: typeMatches_def for_types_cong [of "labels E" "labels E'"] split: sum.splits)
qed

theorem typeMatches_case_insensitive_witness:
  "toLowerCase ''INT|Float'' = toLowerCase ''int|float'' \<and>
   typeMatches example_host ''INT|Float'' (VNum (Finite False 314 (- 2))) = Inr True \<and>
   typeMatches example_host ''int|float'' (VNum (Finite False 314 (- 2))) = Inr True"
proof -
  have same: "toLowerCase ''INT|Float'' = toLowerCase ''int|float''"
    by code_simp
  have lower: "typeMatches example_host ''int|float'' (VNum (Finite False 314 (- 2))) = Inr True"
    by code_simp
  from typeMatches_case_insensitive [OF same, of example_host "VNum (Finite False 314 (- 2))"] lower
  have "typeMatches example_host ''INT|Float'' (VNum (Finite False 314 (- 2))) = Inr True"
    by simp
  with same lower show ?thesis
    by blast
qed

subsection \<open>Labels that no rule of the loop accepts\<close>

lemma types_eq:
  "types = [''int'', ''float'', ''string'', ''bool'', ''array'', ''object'', ''callable'',
            ''iterable'', ''mixed'', ''null'', ''false'', ''true'']"
  by code_simp

lemma class2type_eq:
  "class2type =
     [(''[object Boolean]'', ''boolean''), (''[object Number]'', ''number''),
      (''[object String]'', ''string''), (''[object Function]'', ''function''),
      (''[object Array]'', ''array''), (''[object Date]'', ''date''),
      (''[object RegExp]'', ''regexp''), (''[object Object]'', ''object''),
      (''[object Error]'', ''error''), (''[object Symbol]'', ''symbol'')]"
  by code_simp

lemma isType_recognized:
  "isType v = Inr n \<Longrightarrow> toType h v = Inr t \<Longrightarrow> n \<in> (set types \<union> snd ` set class2type) \<union> {t}"
proof (cases v)
  case (VObj ob)
  assume "isType v = Inr n"
  with VObj have n: "n = (case map_of class2type (Object_toString v) of Some name \<Rightarrow> name | None \<Rightarrow> ''object'')"
    by (auto simp add: isType_def split: if_splits)
  show ?thesis
  proof (cases "map_of class2type (Object_toString v)")
    case None
    with n show ?thesis by (simp add: types_eq)
  next
    case (Some name)
    then have "(Object_toString v, name) \<in> set class2type"
      by (rule map_of_SomeD)
    then have "name \<in> snd ` set class2type"
      by force
    with n Some show ?thesis by simp
  qed
qed (auto simp add: isType_def add_empty_def toType_primitive types_eq class2type_eq)

lemma add_empty_boolean_recognized:
  "typeof v = ''boolean'' \<Longrightarrow> add_empty v = Inr n \<Longrightarrow> n \<in> (set types \<union> snd ` set class2type)"
  by (cases v) (auto simp add: add_empty_def types_eq split: if_splits)

lemma candidate_unrecognized:
  assumes t: "toType h v = Inr t"
    and l: "toLowerCase l \<notin> (set types \<union> snd ` set class2type) \<union> {''htmlelement'', t, slice t 0 4}"
  shows "candidate h v t l = Continue"
proof -
  from l have a: "toLowerCase l \<noteq> ''htmlelement''" "toLowerCase l \<noteq> t"
      "toLowerCase l \<noteq> take 4 t" "toLowerCase l \<notin> (set types \<union> snd ` set class2type)"
    by (simp_all add: slice_0_4)
  then have b: "toLowerCase l \<noteq> ''callable''" "toLowerCase l \<noteq> ''iterable''"
      "toLowerCase l \<noteq> ''mixed''"
    by (auto simp add: types_eq)
  have c: "\<not> (typeof v = ''boolean'' \<and> add_empty v = Inr (toLowerCase l))"
    using a(4) add_empty_boolean_recognized by blast
  have d: "isType v \<noteq> Inr (toLowerCase l)"
    using a(2,4) isType_recognized [OF _ t] by blast
  show ?thesis
    unfolding candidate_char using a(1,2,3) b c d by simp
qed

lemma for_types_unrecognized:
  "toType h v = Inr t \<Longrightarrow>
   \<forall>l\<in>set ls. toLowerCase l \<notin> (set types \<union> snd ` set class2type) \<union> {''htmlelement'', t, slice t 0 4} \<Longrightarrow>
     for_types h v t m ls = Inr m"
  by (induction ls) (simp_all add: candidate_unrecognized)

text \<open>
  Claim C4 says that an expression whose labels are all outside the recognised names
  (the catalogue, the names of the class-tag table and the constructor-derived name)
  matches no value. The source accepts two more things. A label that is the first four
  characters of the refined type matches (the rule that lets \<^verbatim>\<open>bool\<close> match a
  boolean): \<^verbatim>\<open>"stri"\<close> matches a string. And under the nullability marker a nullish
  value matches whatever the labels are. Likewise the refined type \<^verbatim>\<open>"undefined"\<close>
  and the label \<^verbatim>\<open>htmlelement\<close> are accepted without being in those tables.

  Claim C4, amended. For every type expression \<open>E\<close> and value \<open>v\<close> with refined
  type \<open>t\<close>: when no label of \<open>E\<close>, in lower case, is a catalogue label, a name of
  the class-tag table, \<^verbatim>\<open>htmlelement\<close>, \<open>t\<close> or the first four characters of
  \<open>t\<close>, then \<^verbatim>\<open>typeMatches(E, v)\<close> returns whether \<open>E\<close> carries the nullability
  marker and \<open>v\<close> is nullish, and \<^verbatim>\<open>define(E, v)\<close> raises its error in every other
  case.
\<close>

theorem typeMatches_unrecognized:
  "toType h v = Inr t \<Longrightarrow>
   \<forall>l\<in>set (labels E).
      toLowerCase l \<notin> set types \<union> snd ` set class2type \<union> {''htmlelement'', t, slice t 0 4} \<Longrightarrow>
     typeMatches h E v = Inr (optinal E \<and> nullish v) \<and>
     typeh_define h E v =
       (if optinal E \<and> nullish v then Inr v
        else Inl (Error (''The value must be of type ['' @ E @ ''], ['' @ t @ ''] given.'')))"
proof -
  assume t: "toType h v = Inr t"
    and ls: "\<forall>l\<in>set (labels E).
      toLowerCase l \<notin> set types \<union> snd ` set class2type \<union> {''htmlelement'', t, slice t 0 4}"
  from t ls have "typeMatches h E v = Inr (optinal E \<and> nullish v)"
    by (simp add: typeMatches_def for_types_unrecognized)
  then show ?thesis
    by (cases "optinal E \<and> nullish v") (simp_all add: typeh_define_def t mismatch_def)
qed

theorem typeMatches_unrecognized_witness:
  "toType example_host (VStr ''hello'') = Inr ''string'' \<and>
   labels ''strin|number2'' = [''strin'', ''number2''] \<and>
   toLowerCase ''strin'' \<notin> set types \<union> snd ` set class2type \<union> {''htmlelement'', ''string'', slice ''string'' 0 4} \<and>
   toLowerCase ''number2'' \<notin> set types \<union> snd ` set class2type \<union> {''htmlelement'', ''string'', slice ''string'' 0 4} \<and>
   typeMatches example_host ''strin|number2'' (VStr ''hello'') = Inr False \<and>
   typeh_define example_host ''strin|number2'' (VStr ''hello'') =
     Inl (Error ''The value must be of type [strin|number2], [string] given.'')"
proof -
  have a: "toType example_host (VStr ''hello'') = Inr ''string''"
    by (simp add: toType_primitive)
  have b: "labels ''strin|number2'' = [''strin'', ''number2'']"
    by code_simp
  have c: "toLowerCase ''strin'' \<notin> set types \<union> snd ` set class2type \<union> {''htmlelement'', ''string'', slice ''string'' 0 4}"
    by code_simp
  have d: "toLowerCase ''number2'' \<notin> set types \<union> snd ` set class2type \<union> {''htmlelement'', ''string'', slice ''string'' 0 4}"
    by code_simp
  from typeMatches_unrecognized [of example_host "VStr ''hello''" "''string''" "''strin|number2''"] a b c d
  have "typeMatches example_host ''strin|number2'' (VStr ''hello'') = Inr False \<and>
     typeh_define example_host ''strin|number2'' (VStr ''hello'') =
       Inl (Error ''The value must be of type [strin|number2], [string] given.'')"
    by (simp add: optinal_def slice_0_1)
  with a b c d show ?thesis
    by blast
qed

text \<open>
  The counterexample to claim C4 as stated: \<^verbatim>\<open>"stri"\<close> is no catalogue label, no
  name of the class-tag table and not the constructor-derived name of a string, and
  \<^verbatim>\<open>typeMatches("stri", "hello")\<close> is true.
\<close>

theorem unrecognized_label_counterexample:
  "''stri'' \<notin> set types \<and>
   ''stri'' \<notin> snd ` set class2type \<and>
   constructor_derived_name (VStr ''hello'') = Inr ''string'' \<and>
   typeMatches example_host ''stri'' (VStr ''hello'') = Inr True \<and>
   typeh_define example_host ''stri'' (VStr ''hello'') = Inr (VStr ''hello'')"
  by code_simp

subsection \<open>The generated members\<close>

lemma predicate_names:
  "predicate_name ''int'' = ''isInt''"
  "predicate_name ''float'' = ''isFloat''"
  "predicate_name ''string'' = ''isString''"
  "predicate_name ''bool'' = ''isBool''"
  "predicate_name ''array'' = ''isArray''"
  "predicate_name ''object'' = ''isObject''"
  "predicate_name ''callable'' = ''isCallable''"
  "predicate_name ''iterable'' = ''isIterable''"
  "predicate_name ''null'' = ''isNull''"
  "predicate_name ''false'' = ''isFalse''"
  "predicate_name ''true'' = ''isTrue''"
  by code_simp+






lemma map_of_typeh_members:
  "map_of (typeh_members h typeh0) =
     (map_of (Each types (generate h) typeh0))
       (''toType'' \<mapsto> Classifier (toType h), ''isType'' \<mapsto> Classifier isType)"
  by (simp add: typeh_members_def Let_def update_conv')

lemma map_of_generate:
  "map_of (generate h type typeh) =
     (if type \<noteq> ''mixed''
      then (map_of typeh)
             (''_'' @ type \<mapsto> Constructor (typeh_define h (''?'' @ type)),
              type \<mapsto> Constructor (typeh_define h type),
              predicate_name type \<mapsto> Predicate (typeMatches h type))
      else (map_of typeh)
             (''_'' @ type \<mapsto> Constructor (typeh_define h (''?'' @ type)),
              type \<mapsto> Constructor (typeh_define h type)))"
  by (simp add: generate_def Let_def update_conv')




subsection \<open>isInt and isNumeric on Numbers that are not finite\<close>

lemma isInt_not_float:
  "toType h v = Inr ''int'' \<Longrightarrow> typeMatches h ''int'' v = Inr True"
proof -
  have l: "labels ''int'' = [''int'']"
    by (simp add: labels_def optinal_def slice_0_1)
  have low: "toLowerCase ''int'' = ''int''"
    by code_simp
  assume "toType h v = Inr ''int''"
  then show ?thesis
    by (simp add: typeMatches_def l candidate_char low)
qed

lemma parseFloat_not_finite:
  "parseFloat h (VNum NaN) = Inr (StrDecimalValue h ''NaN'')"
  "parseFloat h (VNum PosInf) = Inr PosInf"
  "parseFloat h (VNum NegInf) = Inr NegInf"
  by (simp_all add: parseFloat_def parseFloat_String_def is_white_space_def)

text \<open>
  Claim C10. The generated predicate \<^verbatim>\<open>isInt\<close> is true of NaN and of both
  infinities, whose refined type is \<^verbatim>\<open>"int"\<close>; \<^verbatim>\<open>isNumeric\<close> is false of all
  three, because \<^verbatim>\<open>obj - parseFloat(obj)\<close> is NaN for them.
\<close>

theorem isInt_isNumeric_not_finite:
  "map_of (typeh_members h typeh0) ''isInt'' = Some (Predicate (isInt h)) \<and>
   isInt h (VNum NaN) = Inr True \<and>
   isInt h (VNum PosInf) = Inr True \<and>
   isInt h (VNum NegInf) = Inr True \<and>
   minus_parseFloat h (VNum NaN) = Inr NaN \<and>
   minus_parseFloat h (VNum PosInf) = Inr NaN \<and>
   minus_parseFloat h (VNum NegInf) = Inr NaN \<and>
   isNumeric h (VNum NaN) = Inr False \<and>
   isNumeric h (VNum PosInf) = Inr False \<and>
   isNumeric h (VNum NegInf) = Inr False"
proof -
  have "isInt h = typeMatches h ''int''"
    by (rule ext) (simp add: isInt_def)
  moreover have "map_of (typeh_members h typeh0) ''isInt'' = Some (Predicate (typeMatches h ''int''))"
    unfolding map_of_typeh_members types_eq
    by (simp add: map_of_generate predicate_names)
  ultimately have member: "map_of (typeh_members h typeh0) ''isInt'' = Some (Predicate (isInt h))"
    by simp
  have int: "isInt h (VNum NaN) = Inr True" "isInt h (VNum PosInf) = Inr True"
      "isInt h (VNum NegInf) = Inr True"
    by (simp_all add: isInt_def isInt_not_float toType_VNum)
  have minus: "minus_parseFloat h (VNum NaN) = Inr NaN" "minus_parseFloat h (VNum PosInf) = Inr NaN"
      "minus_parseFloat h (VNum NegInf) = Inr NaN"
    by (simp_all add: minus_parseFloat_def parseFloat_not_finite)
  have numeric: "isNumeric h (VNum NaN) = Inr False" "isNumeric h (VNum PosInf) = Inr False"
      "isNumeric h (VNum NegInf) = Inr False"
    by (simp_all add: isNumeric_def int minus)
  from member int minus numeric show ?thesis
    by simp
qed

theorem isInt_isNumeric_not_finite_witness:
  "map_of (typeh_members example_host []) ''isInt'' = Some (Predicate (isInt example_host)) \<and>
   isInt example_host (VNum NaN) = Inr True \<and>
   isInt example_host (VNum PosInf) = Inr True \<and>
   isInt example_host (VNum NegInf) = Inr True \<and>
   isNumeric example_host (VNum NaN) = Inr False \<and>
   isNumeric example_host (VNum PosInf) = Inr False \<and>
   isNumeric example_host (VNum NegInf) = Inr False"
  using isInt_isNumeric_not_finite [of example_host "[]"] by simp

end
